theory Spec2Isabelle
  imports Complex_Main "HOL-Library.Product_Lexorder"
begin

section \<open>Data model\<close>

text \<open>
  The flashcard application keeps one scheduling state per card. The server
  (\<^verbatim>\<open>api/index.ts\<close>) and the study page of the client
  (\<^verbatim>\<open>client/src/pages/StudySessionPage.tsx\<close>) each carry their own
  implementation of the review step.

  JavaScript numbers are IEEE doubles. They are modelled here by \<^typ>\<open>real\<close>: the
  decimal constants of the source (\<^verbatim>\<open>1.3\<close>, \<^verbatim>\<open>2.8\<close>, \<^verbatim>\<open>0.25\<close>, ...) stand for
  the rationals they denote, and no statement below depends on rounding error.
  Counters that the program only ever sets to zero or increments
  (\<^verbatim>\<open>reviewCount\<close>, \<^verbatim>\<open>consecutiveCorrect\<close>) are natural numbers, timestamps are
  ECMAScript time values (integer milliseconds since the epoch).
\<close>

datatype stage = New | Learning | Review | Mastered

record card =
  card_id :: string
  deckId :: string
  stage :: stage
  interval :: real
  easeFactor :: real
  nextReviewAt :: int
  reviewCount :: nat
  consecutiveCorrect :: nat
  createdAt :: int

subsection \<open>JavaScript built-ins used by the scheduler\<close>

text \<open>\<^verbatim>\<open>Math.round\<close>: the nearest integer, a tie going towards plus infinity.\<close>

definition Math_round :: "real \<Rightarrow> real" where
  "Math_round x = of_int \<lfloor>x + 1 / 2\<rfloor>"

text \<open>\<^verbatim>\<open>Math.floor\<close>.\<close>

definition Math_floor :: "real \<Rightarrow> int" where
  "Math_floor x = \<lfloor>x\<rfloor>"

text \<open>ECMAScript \<^verbatim>\<open>ToIntegerOrInfinity\<close> on a finite number: truncation towards zero.\<close>

definition ToIntegerOrInfinity :: "real \<Rightarrow> int" where
  "ToIntegerOrInfinity x = (if 0 \<le> x then \<lfloor>x\<rfloor> else \<lceil>x\<rceil>)"

definition msPerDay :: int where
  "msPerDay = 86400000"

text \<open>
  A \<^verbatim>\<open>Date\<close> object, broken down the way \<^verbatim>\<open>getDate\<close> and \<^verbatim>\<open>setDate\<close> see it. The
  calendar enters \<^verbatim>\<open>MakeDay (YearFromTime t) (MonthFromTime t) dt\<close> only through the
  day number of the first day of the month of \<^verbatim>\<open>t\<close>, so a date is that day number,
  the day of the month (from 1) and the time within the day in milliseconds. Local
  time is taken to be UTC, as on the server.
\<close>

record js_date =
  monthStartDay :: int
  dayOfMonth :: int
  timeWithinDay :: int

definition getTime :: "js_date \<Rightarrow> int" where
  "getTime d = (monthStartDay d + dayOfMonth d - 1) * msPerDay + timeWithinDay d"

definition getDate :: "js_date \<Rightarrow> int" where
  "getDate d = dayOfMonth d"

text \<open>
  \<^verbatim>\<open>Date.prototype.setDate (dt)\<close>: \<^verbatim>\<open>MakeDay\<close> converts its day argument with
  \<^verbatim>\<open>ToIntegerOrInfinity\<close> and returns the day number of the first of the month plus
  that integer minus one; \<^verbatim>\<open>MakeDate\<close> keeps the time within the day. The result is
  the new time value.
\<close>

definition setDate :: "js_date \<Rightarrow> real \<Rightarrow> int" where
  "setDate d dt = (monthStartDay d + ToIntegerOrInfinity dt - 1) * msPerDay + timeWithinDay d"

section \<open>The review step of the server\<close>

text \<open>
  Route \<^verbatim>\<open>/api/study/review\<close>: the computation of \<^verbatim>\<open>newStage\<close>, \<^verbatim>\<open>newInterval\<close>,
  \<^verbatim>\<open>newEaseFactor\<close> and \<^verbatim>\<open>newConsecutiveCorrect\<close> from the stored card, the
  \<^verbatim>\<open>quality\<close> and the \<^verbatim>\<open>wasCorrect\<close> flag of the request.
\<close>

record review_values =
  newStage :: stage
  newInterval :: real
  newEaseFactor :: real
  newConsecutiveCorrect :: nat

definition review_correct_stage :: "'a card_scheme \<Rightarrow> real \<Rightarrow> nat \<Rightarrow> stage \<times> real" where
  "review_correct_stage c quality ncc =
     (if stage c = New then
        (Learning, if quality \<ge> 4 then 2 else 1)
      else if stage c = Learning then
        (if ncc \<ge> 2 \<and> quality \<ge> 3 then (Review, if quality \<ge> 4 then 5 else 4)
         else (Learning, max 1 (Math_round (interval c * 1.3))))
      else if stage c = Review then
        (if ncc \<ge> 3 \<and> quality \<ge> 4 then Mastered
         else if ncc \<ge> 4 \<and> quality \<ge> 3 then Mastered
         else Review,
         max 1 (Math_round (interval c * easeFactor c)))
      else if stage c = Mastered then
        (Mastered, max 7 (Math_round (interval c * easeFactor c)))
      else (stage c, interval c))"

definition review_correct_ease :: "real \<Rightarrow> real \<Rightarrow> real" where
  "review_correct_ease ef quality =
     (if quality \<ge> 4 then min 2.8 (ef + 0.1)
      else if quality = 3 then min 2.8 (ef + 0.05)
      else max 1.3 (ef - 0.1))"

definition review_failed_stage :: "'a card_scheme \<Rightarrow> stage \<times> real" where
  "review_failed_stage c =
     (if stage c = Mastered \<or> stage c = Review then (Learning, 1)
      else if stage c = Learning then (New, 0.5)
      else (stage c, 0.25))"

definition review_transition :: "'a card_scheme \<Rightarrow> real \<Rightarrow> bool \<Rightarrow> review_values" where
  "review_transition c quality wasCorrect =
     (if wasCorrect then
        (let ncc = consecutiveCorrect c + 1;
             (st, iv) = review_correct_stage c quality ncc
         in \<lparr>newStage = st, newInterval = iv,
             newEaseFactor = review_correct_ease (easeFactor c) quality,
             newConsecutiveCorrect = ncc\<rparr>)
      else
        (let (st, iv) = review_failed_stage c
         in \<lparr>newStage = st, newInterval = iv,
             newEaseFactor = max 1.3 (easeFactor c - 0.2),
             newConsecutiveCorrect = 0\<rparr>))"

text \<open>
  The update written back to the card: the four values, \<^verbatim>\<open>nextReviewAt\<close> obtained
  from \<^verbatim>\<open>new Date()\<close> by \<^verbatim>\<open>setDate (getDate () + newInterval)\<close>, and
  \<^verbatim>\<open>reviewCount\<close> incremented.
\<close>

definition review_update :: "card \<Rightarrow> real \<Rightarrow> bool \<Rightarrow> js_date \<Rightarrow> card" where
  "review_update c quality wasCorrect now =
     (let v = review_transition c quality wasCorrect
      in c\<lparr>stage := newStage v,
            interval := newInterval v,
            easeFactor := newEaseFactor v,
            nextReviewAt := setDate now (real_of_int (getDate now) + newInterval v),
            reviewCount := reviewCount c + 1,
            consecutiveCorrect := newConsecutiveCorrect v\<rparr>)"

subsection \<open>The routes around it\<close>

text \<open>
  The store as the routes see it: the identifiers of the decks and of the study
  sessions, and the card rows. The review-history row that the review route appends
  after the update is left out; nothing below reads it.
\<close>

record database =
  decks :: "string list"
  sessions :: "string list"
  cards :: "card list"

datatype api_error = ValidationError | DeckNotFound | SessionNotFound | CardNotFound

record review_request =
  req_cardId :: string
  req_sessionId :: "string option"
  req_quality :: real
  req_responseTime :: real
  req_wasCorrect :: bool

text \<open>
  Route \<^verbatim>\<open>POST /api/study/review\<close>. \<^verbatim>\<open>reviewSchema\<close> accepts a quality between 0
  and 5; a session identifier is checked only when it is present and not empty.
\<close>

definition study_review ::
  "database \<Rightarrow> review_request \<Rightarrow> js_date \<Rightarrow> api_error + database \<times> card" where
  "study_review db req now =
     (if \<not> (0 \<le> req_quality req \<and> req_quality req \<le> 5) then Inl ValidationError
      else if (case req_sessionId req of
                 None \<Rightarrow> False
               | Some sid \<Rightarrow> sid \<noteq> [] \<and> sid \<notin> set (sessions db)) then Inl SessionNotFound
      else (case find (\<lambda>c. card_id c = req_cardId req) (cards db) of
              None \<Rightarrow> Inl CardNotFound
            | Some c \<Rightarrow>
                (let updatedCard = review_update c (req_quality req) (req_wasCorrect req) now
                 in Inr (db\<lparr>cards :=
                              map (\<lambda>x. if card_id x = req_cardId req then updatedCard else x)
                                (cards db)\<rparr>,
                         updatedCard))))"

text \<open>
  The \<^verbatim>\<open>orderBy\<close> of both card queries: \<^verbatim>\<open>nextReviewAt\<close> ascending, then
  \<^verbatim>\<open>createdAt\<close> ascending.
\<close>

definition orderBy_nextReviewAt_createdAt :: "card list \<Rightarrow> card list" where
  "orderBy_nextReviewAt_createdAt cs = sort_key (\<lambda>c. (nextReviewAt c, createdAt c)) cs"

text \<open>
  Route \<^verbatim>\<open>POST /api/study/session\<close>: the cards returned with the new session,
  which the study page turns into its queue. \<^verbatim>\<open>maxCards\<close> is the \<^verbatim>\<open>take\<close> of the query.
\<close>

definition study_session :: "database \<Rightarrow> string \<Rightarrow> nat \<Rightarrow> api_error + card list" where
  "study_session db did maxCards =
     (if did \<notin> set (decks db) then Inl DeckNotFound
      else Inr (take maxCards
                  (orderBy_nextReviewAt_createdAt
                     (filter (\<lambda>c. deckId c = did \<and> stage c \<noteq> Mastered) (cards db)))))"

text \<open>
  Route \<^verbatim>\<open>GET /api/study/due\<close>. The \<^verbatim>\<open>where\<close> clause of its two queries: the next
  review date is not after the current time, or the stage is new.
\<close>

definition is_due :: "js_date \<Rightarrow> 'a card_scheme \<Rightarrow> bool" where
  "is_due now c = (nextReviewAt c \<le> getTime now \<or> stage c = New)"

text \<open>The due cards, with the optional \<^verbatim>\<open>limit\<close> as \<^verbatim>\<open>take\<close>, and their total number.\<close>

definition study_due :: "database \<Rightarrow> nat option \<Rightarrow> js_date \<Rightarrow> card list \<times> nat" where
  "study_due db limit now =
     (let due = orderBy_nextReviewAt_createdAt (filter (is_due now) (cards db))
      in ((case limit of None \<Rightarrow> due | Some n \<Rightarrow> take n due),
          length (filter (is_due now) (cards db))))"

section \<open>The study page of the client\<close>

text \<open>
  A queue entry is a card with the fields the page adds: \<^verbatim>\<open>nextShowTime\<close>, and
  \<^verbatim>\<open>repetition\<close>, which is absent until the first review writes it.
\<close>

record queue_entry = card +
  nextShowTime :: "int option"
  repetition :: "nat option"

record sm2_result =
  sm2_interval :: real
  sm2_repetition :: nat
  sm2_easeFactor :: real
  sm2_stage :: stage
  sm2_consecutiveCorrect :: nat

text \<open>
  \<^verbatim>\<open>calculateSM2\<close>, on the four-step rating of the page (1 to 4). The function is
  given in the pieces of its source: the stage progression of a successful review
  (from the stage, the interval, the ease factor and the incremented streak), the
  ease factor of a successful review, and the function itself with its two kinds of
  failed review and the final clamp of the interval.
\<close>

definition sm2_stage_progression :: "stage \<Rightarrow> real \<Rightarrow> real \<Rightarrow> real \<Rightarrow> nat \<Rightarrow> stage \<times> real" where
  "sm2_stage_progression stage0 interval0 easeFactor0 quality consecutiveCorrect1 =
     (if stage0 = New then
        (Learning, if quality = 4 then 2 else 1)
      else if stage0 = Learning then
        (if quality = 4 \<and> consecutiveCorrect1 \<ge> 1 then (Review, 4)
         else if quality = 3 \<and> consecutiveCorrect1 \<ge> 2 then (Review, 3)
         else (Learning, max 1 (Math_round (interval0 * 1.5))))
      else if stage0 = Review then
        (if quality = 4 \<and> consecutiveCorrect1 \<ge> 2 then Mastered
         else if quality = 3 \<and> consecutiveCorrect1 \<ge> 3 then Mastered
         else Review,
         Math_round (interval0 * easeFactor0))
      else if stage0 = Mastered then
        (Mastered, Math_round (interval0 * easeFactor0))
      else (stage0, interval0))"

definition sm2_success_ease :: "real \<Rightarrow> real \<Rightarrow> real" where
  "sm2_success_ease easeFactor0 quality =
     (if quality = 4 then min 2.5 (easeFactor0 + 0.1)
      else if quality = 3 then min 2.5 (easeFactor0 + 0.05)
      else easeFactor0)"

definition sm2_unclamped :: "'a queue_entry_scheme \<Rightarrow> real \<Rightarrow> sm2_result" where
  "sm2_unclamped c quality =
     (let repetition0 = (case repetition c of None \<Rightarrow> 0 | Some r \<Rightarrow> r)
      in if quality \<ge> 3 then
           \<lparr>sm2_interval =
              snd (sm2_stage_progression (stage c) (interval c) (easeFactor c) quality
                     (consecutiveCorrect c + 1)),
            sm2_repetition = repetition0 + 1,
            sm2_easeFactor = sm2_success_ease (easeFactor c) quality,
            sm2_stage =
              fst (sm2_stage_progression (stage c) (interval c) (easeFactor c) quality
                     (consecutiveCorrect c + 1)),
            sm2_consecutiveCorrect = consecutiveCorrect c + 1\<rparr>
         else if quality = 1 then
           \<lparr>sm2_interval = 0.25,
            sm2_repetition = max 0 (repetition0 - 1),
            sm2_easeFactor = max 1.3 (easeFactor c - 0.2),
            sm2_stage = (if stage c = Review \<or> stage c = Mastered then Learning else stage c),
            sm2_consecutiveCorrect = 0\<rparr>
         else
           \<lparr>sm2_interval = max 0.5 (Math_round (interval c * 0.7)),
            sm2_repetition = repetition0,
            sm2_easeFactor = max 1.3 (easeFactor c - 0.1),
            sm2_stage = stage c,
            sm2_consecutiveCorrect = 0\<rparr>)"

definition calculateSM2 :: "'a queue_entry_scheme \<Rightarrow> real \<Rightarrow> sm2_result" where
  "calculateSM2 c quality =
     (sm2_unclamped c quality)
       \<lparr>sm2_interval := max 0.25 (min 365 (sm2_interval (sm2_unclamped c quality)))\<rparr>"

text \<open>
  The state of the page that a review touches: the queue, the index of the current
  card, the counters of the session and the offline indicator.
\<close>

record stage_progress =
  sp_new :: nat
  sp_learning :: nat
  sp_review :: nat
  sp_mastered :: nat

record session_stats =
  studied :: nat
  correct :: nat
  totalReviews :: nat
  stageProgress :: stage_progress

record page_state =
  studyQueue :: "queue_entry list"
  currentCardIndex :: nat
  sessionStats :: session_stats
  isOfflineMode :: bool

definition isSessionComplete :: "page_state \<Rightarrow> bool" where
  "isSessionComplete s = (length (studyQueue s) = 0)"

text \<open>
  \<^verbatim>\<open>calculateStageProgress\<close>: the cards of the queue counted by stage, mastered ones
  not counted; the mastered count is the argument.
\<close>

definition calculateStageProgress :: "'a card_scheme list \<Rightarrow> nat \<Rightarrow> stage_progress" where
  "calculateStageProgress cs masteredCount =
     \<lparr>sp_new = length (filter (\<lambda>c. stage c = New) cs),
      sp_learning = length (filter (\<lambda>c. stage c = Learning) cs),
      sp_review = length (filter (\<lambda>c. stage c = Review) cs),
      sp_mastered = masteredCount\<rparr>"

text \<open>
  \<^verbatim>\<open>fetchStudyData\<close>, from the cards of the session response on: each card becomes a
  queue entry with \<^verbatim>\<open>reviewCount\<close> 0, the index is 0. With no cards the page shows
  a message and leaves the queue empty.
\<close>

definition initialQueue :: "card list \<Rightarrow> queue_entry list" where
  "initialQueue cs =
     map (\<lambda>c. \<lparr>card_id = card_id c, deckId = deckId c, stage = stage c,
                interval = interval c, easeFactor = easeFactor c,
                nextReviewAt = nextReviewAt c, reviewCount = 0,
                consecutiveCorrect = consecutiveCorrect c, createdAt = createdAt c,
                nextShowTime = None, repetition = None\<rparr>) cs"

definition fetchStudyData :: "card list \<Rightarrow> page_state" where
  "fetchStudyData cs =
     \<lparr>studyQueue = (if length cs = 0 then [] else initialQueue cs),
      currentCardIndex = 0,
      sessionStats =
        \<lparr>studied = 0, correct = 0, totalReviews = 0,
         stageProgress =
           (if length cs = 0
            then \<lparr>sp_new = 0, sp_learning = 0, sp_review = 0, sp_mastered = 0\<rparr>
            else calculateStageProgress cs 0)\<rparr>,
      isOfflineMode = False\<rparr>"

text \<open>\<^verbatim>\<open>Object.assign (currentCardData, sm2Result)\<close>.\<close>

definition assign_sm2 :: "queue_entry \<Rightarrow> sm2_result \<Rightarrow> queue_entry" where
  "assign_sm2 e r =
     e\<lparr>interval := sm2_interval r,
       repetition := Some (sm2_repetition r),
       easeFactor := sm2_easeFactor r,
       stage := sm2_stage r,
       consecutiveCorrect := sm2_consecutiveCorrect r\<rparr>"

text \<open>
  The current entry after \<^verbatim>\<open>Object.assign\<close> and the increment of its
  \<^verbatim>\<open>reviewCount\<close>.
\<close>

definition reviewed_entry :: "queue_entry \<Rightarrow> real \<Rightarrow> queue_entry" where
  "reviewed_entry e quality =
     (assign_sm2 e (calculateSM2 e quality))\<lparr>reviewCount := reviewCount e + 1\<rparr>"

text \<open>\<^verbatim>\<open>updatedQueue.splice (i, 1)\<close>.\<close>

definition splice1 :: "nat \<Rightarrow> 'a list \<Rightarrow> 'a list" where
  "splice1 i xs = take i xs @ drop (Suc i) xs"

text \<open>
  What \<^verbatim>\<open>ApiService.submitReview\<close> does is not part of the page: it either returns
  or throws.
\<close>

datatype submit_outcome = Submitted | SubmitFailed

text \<open>
  The checks of the review data inside the \<^verbatim>\<open>try\<close> block; each failed check throws
  and so ends in the \<^verbatim>\<open>catch\<close> block, as a failed submission does.
\<close>

definition reviewData_valid :: "queue_entry \<Rightarrow> real \<Rightarrow> real \<Rightarrow> bool" where
  "reviewData_valid currentCard quality responseTime =
     (card_id currentCard \<noteq> []
      \<and> 1 \<le> Math_floor quality \<and> Math_floor quality \<le> 4
      \<and> 0 \<le> Math_floor responseTime)"

text \<open>
  \<^verbatim>\<open>handleCardReview\<close>. The statistics are computed where the source calls
  \<^verbatim>\<open>setSessionStats\<close>: before the removal in the \<^verbatim>\<open>try\<close> block, after it in the
  \<^verbatim>\<open>catch\<close> block.
\<close>

definition handleCardReview ::
  "page_state \<Rightarrow> real \<Rightarrow> real \<Rightarrow> bool \<Rightarrow> submit_outcome \<Rightarrow> page_state" where
  "handleCardReview s quality responseTime wasCorrect outcome =
     (if currentCardIndex s \<ge> length (studyQueue s) then s
      else
        (let i = currentCardIndex s;
             prev = sessionStats s;
             sm2Result = calculateSM2 (studyQueue s ! i) quality;
             currentCardData = reviewed_entry (studyQueue s ! i) quality;
             updatedQueue = (studyQueue s)[i := currentCardData];
             shouldRemoveFromQueue = (sm2_stage sm2Result = Mastered);
             studied1 = (if shouldRemoveFromQueue then studied prev + 1 else studied prev);
             spliced = splice1 i updatedQueue
         in if reviewData_valid currentCardData quality responseTime \<and> outcome = Submitted then
              s\<lparr>studyQueue := (if shouldRemoveFromQueue then spliced else updatedQueue),
                currentCardIndex :=
                  (if shouldRemoveFromQueue then
                     (if i \<ge> length spliced \<and> length spliced > 0 then 0 else i)
                   else (if i + 1 \<ge> length updatedQueue then 0 else i + 1)),
                sessionStats :=
                  \<lparr>studied = studied1,
                   correct = correct prev + (if wasCorrect then 1 else 0),
                   totalReviews = totalReviews prev + 1,
                   stageProgress = calculateStageProgress updatedQueue studied1\<rparr>,
                isOfflineMode := False\<rparr>
            else
              (let queue1 = (if shouldRemoveFromQueue then spliced else updatedQueue);
                   nextIndex =
                     (if shouldRemoveFromQueue then
                        (if i \<ge> length spliced \<and> length spliced > 0 then 0 else i)
                      else (i + 1) mod length updatedQueue)
               in s\<lparr>studyQueue := queue1,
                    currentCardIndex := nextIndex,
                    sessionStats :=
                      \<lparr>studied = studied1,
                       correct = correct prev + (if wasCorrect then 1 else 0),
                       totalReviews = totalReviews prev + 1,
                       stageProgress = calculateStageProgress queue1 studied1\<rparr>,
                    isOfflineMode := True\<rparr>)))"


subsection \<open>A measure for runs of correct reviews\<close>




section \<open>Properties of the review step\<close>

subsection \<open>A worked review\<close>

text \<open>
  Claim C2. A card in stage learning with interval 1, ease factor 2.5 and one
  consecutive correct answer, reviewed on the server with quality 4 and
  \<^verbatim>\<open>wasCorrect = true\<close>, moves to stage review with interval 5, ease factor 2.6 and
  two consecutive correct answers, whatever its other fields are.
\<close>

theorem review_learning_scenario:
  "review_transition
     \<lparr>card_id = cid, deckId = did, stage = Learning, interval = 1, easeFactor = 2.5,
      nextReviewAt = t, reviewCount = n, consecutiveCorrect = 1, createdAt = t0\<rparr> 4 True
   = \<lparr>newStage = Review, newInterval = 5, newEaseFactor = 2.6, newConsecutiveCorrect = 2\<rparr>"
  by (simp add: review_transition_def review_correct_stage_def review_correct_ease_def)

subsection \<open>The ease factor stays within its bounds\<close>

lemma review_transition_ease_bounds:
  assumes "1.3 \<le> easeFactor c" and "easeFactor c \<le> 2.8"
  shows "1.3 \<le> newEaseFactor (review_transition c quality wasCorrect)"
    and "newEaseFactor (review_transition c quality wasCorrect) \<le> 2.8"
  using assms
  by (auto simp add: review_transition_def review_correct_ease_def Let_def min_def max_def
      split: prod.splits)

lemma calculateSM2_ease_bounds:
  assumes "1.3 \<le> easeFactor e" and "easeFactor e \<le> 2.8"
  shows "1.3 \<le> sm2_easeFactor (calculateSM2 e quality)"
    and "sm2_easeFactor (calculateSM2 e quality) \<le> 2.8"
  using assms
  by (auto simp add: calculateSM2_def sm2_unclamped_def sm2_success_ease_def Let_def min_def max_def)

text \<open>
  Claim C4. If the ease factor of a card lies between 1.3 and 2.8, so does the ease
  factor after one review, for every quality and correctness flag: both the ease
  factor that the server writes back and the one that \<^verbatim>\<open>calculateSM2\<close> returns on
  the study page.
\<close>

theorem easeFactor_stays_in_bounds:
  assumes "1.3 \<le> easeFactor c" and "easeFactor c \<le> 2.8"
    and "1.3 \<le> easeFactor e" and "easeFactor e \<le> 2.8"
  shows "1.3 \<le> easeFactor (review_update c quality wasCorrect now)
       \<and> easeFactor (review_update c quality wasCorrect now) \<le> 2.8
       \<and> 1.3 \<le> sm2_easeFactor (calculateSM2 e rating)
       \<and> sm2_easeFactor (calculateSM2 e rating) \<le> 2.8"
proof -
  note a = review_transition_ease_bounds [OF assms(1,2), of quality wasCorrect]
  note b = calculateSM2_ease_bounds [OF assms(3,4), of rating]
  have eq: "easeFactor (review_update c quality wasCorrect now)
        = newEaseFactor (review_transition c quality wasCorrect)"
    by (simp add: review_update_def Let_def)
  show ?thesis
    unfolding eq using a b by blast
qed

theorem easeFactor_stays_in_bounds_witness:
  "1.3 \<le> easeFactor \<lparr>card_id = ''c1'', deckId = ''d1'', stage = Review, interval = 4,
             easeFactor = 2.75, nextReviewAt = 0, reviewCount = 3,
             consecutiveCorrect = 2, createdAt = 0\<rparr>
   \<and> easeFactor \<lparr>card_id = ''c1'', deckId = ''d1'', stage = Review, interval = 4,
             easeFactor = 2.75, nextReviewAt = 0, reviewCount = 3,
             consecutiveCorrect = 2, createdAt = 0\<rparr> \<le> 2.8
   \<and> 1.3 \<le> easeFactor (review_update
          \<lparr>card_id = ''c1'', deckId = ''d1'', stage = Review, interval = 4,
             easeFactor = 2.75, nextReviewAt = 0, reviewCount = 3,
             consecutiveCorrect = 2, createdAt = 0\<rparr> 4 True
          \<lparr>monthStartDay = 20758, dayOfMonth = 2, timeWithinDay = 0\<rparr>)
   \<and> easeFactor (review_update
          \<lparr>card_id = ''c1'', deckId = ''d1'', stage = Review, interval = 4,
             easeFactor = 2.75, nextReviewAt = 0, reviewCount = 3,
             consecutiveCorrect = 2, createdAt = 0\<rparr> 4 True
          \<lparr>monthStartDay = 20758, dayOfMonth = 2, timeWithinDay = 0\<rparr>) \<le> 2.8
   \<and> 1.3 \<le> sm2_easeFactor (calculateSM2
          \<lparr>card_id = ''c1'', deckId = ''d1'', stage = Review, interval = 4,
             easeFactor = 2.75, nextReviewAt = 0, reviewCount = 0,
             consecutiveCorrect = 2, createdAt = 0,
             nextShowTime = None, repetition = None\<rparr> 4)
   \<and> sm2_easeFactor (calculateSM2
          \<lparr>card_id = ''c1'', deckId = ''d1'', stage = Review, interval = 4,
             easeFactor = 2.75, nextReviewAt = 0, reviewCount = 0,
             consecutiveCorrect = 2, createdAt = 0,
             nextShowTime = None, repetition = None\<rparr> 4) \<le> 2.8"
  using easeFactor_stays_in_bounds
    [of "\<lparr>card_id = ''c1'', deckId = ''d1'', stage = Review, interval = 4,
           easeFactor = 2.75, nextReviewAt = 0, reviewCount = 3,
           consecutiveCorrect = 2, createdAt = 0\<rparr>"
        "\<lparr>card_id = ''c1'', deckId = ''d1'', stage = Review, interval = 4,
           easeFactor = 2.75, nextReviewAt = 0, reviewCount = 0,
           consecutiveCorrect = 2, createdAt = 0,
           nextShowTime = None, repetition = None\<rparr>"
        4 True "\<lparr>monthStartDay = 20758, dayOfMonth = 2, timeWithinDay = 0\<rparr>" 4]
  by simp

subsection \<open>The interval on the step into stage mastered\<close>

text \<open>
  Claim C10. On the server, a correct review of a card in stage review sets the
  interval to \<^verbatim>\<open>max (1, round (interval * easeFactor))\<close>, also on the step that moves
  the card to stage mastered (three consecutive correct answers with quality at least
  4, or four with quality at least 3). So the card with interval 1 and ease factor 1.3
  enters stage mastered with interval 1. The floor of 7 holds for correct reviews of
  cards that are already in stage mastered.
\<close>

theorem review_to_mastered_interval:
  "(stage c = Review \<longrightarrow>
      newInterval (review_transition c quality True)
        = max 1 (Math_round (interval c * easeFactor c)))
   \<and> (stage c = Review \<and> (consecutiveCorrect c + 1 \<ge> 3 \<and> quality \<ge> 4
                           \<or> consecutiveCorrect c + 1 \<ge> 4 \<and> quality \<ge> 3) \<longrightarrow>
      newStage (review_transition c quality True) = Mastered)
   \<and> (stage c = Review \<and> interval c = 1 \<and> easeFactor c = 1.3
        \<and> consecutiveCorrect c = 2 \<and> quality = 4 \<longrightarrow>
      newStage (review_transition c quality True) = Mastered
      \<and> newInterval (review_transition c quality True) = 1)
   \<and> (stage c = Mastered \<longrightarrow> 7 \<le> newInterval (review_transition c quality True))"
  by (auto simp add: review_transition_def review_correct_stage_def Let_def Math_round_def)

theorem review_to_mastered_interval_witness:
  "newStage (review_transition
      \<lparr>card_id = ''c1'', deckId = ''d1'', stage = Review, interval = 1, easeFactor = 1.3,
       nextReviewAt = 0, reviewCount = 5, consecutiveCorrect = 2, createdAt = 0\<rparr> 4 True)
     = Mastered
   \<and> newInterval (review_transition
      \<lparr>card_id = ''c1'', deckId = ''d1'', stage = Review, interval = 1, easeFactor = 1.3,
       nextReviewAt = 0, reviewCount = 5, consecutiveCorrect = 2, createdAt = 0\<rparr> 4 True)
     = 1
   \<and> 7 \<le> newInterval (review_transition
      \<lparr>card_id = ''c1'', deckId = ''d1'', stage = Mastered, interval = 1, easeFactor = 1.4,
       nextReviewAt = 0, reviewCount = 6, consecutiveCorrect = 3, createdAt = 0\<rparr> 4 True)"
  using review_to_mastered_interval
    [of "\<lparr>card_id = ''c1'', deckId = ''d1'', stage = Review, interval = 1, easeFactor = 1.3,
          nextReviewAt = 0, reviewCount = 5, consecutiveCorrect = 2, createdAt = 0\<rparr>" 4]
    review_to_mastered_interval
    [of "\<lparr>card_id = ''c1'', deckId = ''d1'', stage = Mastered, interval = 1, easeFactor = 1.4,
          nextReviewAt = 0, reviewCount = 6, consecutiveCorrect = 3, createdAt = 0\<rparr>" 4]
  by simp

subsection \<open>Server and study page compared\<close>

lemma calculateSM2_fields:
  "sm2_stage (calculateSM2 c quality) = sm2_stage (sm2_unclamped c quality)"
  "sm2_easeFactor (calculateSM2 c quality) = sm2_easeFactor (sm2_unclamped c quality)"
  "sm2_consecutiveCorrect (calculateSM2 c quality)
     = sm2_consecutiveCorrect (sm2_unclamped c quality)"
  "sm2_repetition (calculateSM2 c quality) = sm2_repetition (sm2_unclamped c quality)"
  "sm2_interval (calculateSM2 c quality)
     = max 0.25 (min 365 (sm2_interval (sm2_unclamped c quality)))"
  by (simp_all add: calculateSM2_def)

text \<open>
  Claim C1, as amended. The review step of the server and \<^verbatim>\<open>calculateSM2\<close> of the
  study page are not equivalent on every card and outcome. They agree as follows,
  for every card and every outcome whose \<^verbatim>\<open>wasCorrect\<close> flag says that the quality is
  at least 3: the consecutive-correct count is the same; for a card in stage new and
  quality 1, 3 or 4 the new stage and the new interval are the same; and the ease
  factor is the same when the quality is 1, or 3 with an ease factor of at most 2.45,
  or 4 with an ease factor of at most 2.4 (the study page caps the ease factor at 2.5,
  the server at 2.8).
\<close>

theorem review_calculateSM2_agreement:
  assumes "wasCorrect = (3 \<le> quality)"
  shows "newConsecutiveCorrect (review_transition c quality wasCorrect)
           = sm2_consecutiveCorrect (calculateSM2 c quality)
       \<and> (stage c = New \<and> (quality = 1 \<or> quality = 3 \<or> quality = 4) \<longrightarrow>
            newStage (review_transition c quality wasCorrect)
              = sm2_stage (calculateSM2 c quality)
            \<and> newInterval (review_transition c quality wasCorrect)
                = sm2_interval (calculateSM2 c quality))
       \<and> (quality = 1 \<or> quality = 3 \<and> easeFactor c \<le> 2.45
             \<or> quality = 4 \<and> easeFactor c \<le> 2.4 \<longrightarrow>
            newEaseFactor (review_transition c quality wasCorrect)
              = sm2_easeFactor (calculateSM2 c quality))"
proof (intro conjI impI)
  show "newConsecutiveCorrect (review_transition c quality wasCorrect)
           = sm2_consecutiveCorrect (calculateSM2 c quality)"
    using assms
    by (simp add: review_transition_def calculateSM2_fields sm2_unclamped_def Let_def
        split: prod.splits)
next
  assume "stage c = New \<and> (quality = 1 \<or> quality = 3 \<or> quality = 4)"
  with assms show "newStage (review_transition c quality wasCorrect)
                     = sm2_stage (calculateSM2 c quality)"
    by (auto simp add: review_transition_def review_correct_stage_def review_failed_stage_def
        calculateSM2_fields sm2_unclamped_def sm2_stage_progression_def Let_def)
next
  assume "stage c = New \<and> (quality = 1 \<or> quality = 3 \<or> quality = 4)"
  with assms show "newInterval (review_transition c quality wasCorrect)
                     = sm2_interval (calculateSM2 c quality)"
    by (auto simp add: review_transition_def review_correct_stage_def review_failed_stage_def
        calculateSM2_fields sm2_unclamped_def sm2_stage_progression_def Let_def)
next
  assume "quality = 1 \<or> quality = 3 \<and> easeFactor c \<le> 2.45
            \<or> quality = 4 \<and> easeFactor c \<le> 2.4"
  with assms show "newEaseFactor (review_transition c quality wasCorrect)
                     = sm2_easeFactor (calculateSM2 c quality)"
    by (auto simp add: review_transition_def review_correct_ease_def
        calculateSM2_fields sm2_unclamped_def sm2_success_ease_def Let_def min_def
        split: prod.splits)
qed

theorem review_calculateSM2_agreement_witness:
  "newConsecutiveCorrect (review_transition
     \<lparr>card_id = ''c1'', deckId = ''d1'', stage = New, interval = 1,
       easeFactor = 2.3, nextReviewAt = 0, reviewCount = 0,
       consecutiveCorrect = 0, createdAt = 0,
       nextShowTime = None, repetition = None\<rparr> 4 True)
     = sm2_consecutiveCorrect (calculateSM2
     \<lparr>card_id = ''c1'', deckId = ''d1'', stage = New, interval = 1,
       easeFactor = 2.3, nextReviewAt = 0, reviewCount = 0,
       consecutiveCorrect = 0, createdAt = 0,
       nextShowTime = None, repetition = None\<rparr> 4)
   \<and> newStage (review_transition
     \<lparr>card_id = ''c1'', deckId = ''d1'', stage = New, interval = 1,
       easeFactor = 2.3, nextReviewAt = 0, reviewCount = 0,
       consecutiveCorrect = 0, createdAt = 0,
       nextShowTime = None, repetition = None\<rparr> 4 True)
     = sm2_stage (calculateSM2
     \<lparr>card_id = ''c1'', deckId = ''d1'', stage = New, interval = 1,
       easeFactor = 2.3, nextReviewAt = 0, reviewCount = 0,
       consecutiveCorrect = 0, createdAt = 0,
       nextShowTime = None, repetition = None\<rparr> 4)
   \<and> newInterval (review_transition
     \<lparr>card_id = ''c1'', deckId = ''d1'', stage = New, interval = 1,
       easeFactor = 2.3, nextReviewAt = 0, reviewCount = 0,
       consecutiveCorrect = 0, createdAt = 0,
       nextShowTime = None, repetition = None\<rparr> 4 True)
     = sm2_interval (calculateSM2
     \<lparr>card_id = ''c1'', deckId = ''d1'', stage = New, interval = 1,
       easeFactor = 2.3, nextReviewAt = 0, reviewCount = 0,
       consecutiveCorrect = 0, createdAt = 0,
       nextShowTime = None, repetition = None\<rparr> 4)
   \<and> newEaseFactor (review_transition
     \<lparr>card_id = ''c1'', deckId = ''d1'', stage = New, interval = 1,
       easeFactor = 2.3, nextReviewAt = 0, reviewCount = 0,
       consecutiveCorrect = 0, createdAt = 0,
       nextShowTime = None, repetition = None\<rparr> 4 True)
     = sm2_easeFactor (calculateSM2
     \<lparr>card_id = ''c1'', deckId = ''d1'', stage = New, interval = 1,
       easeFactor = 2.3, nextReviewAt = 0, reviewCount = 0,
       consecutiveCorrect = 0, createdAt = 0,
       nextShowTime = None, repetition = None\<rparr> 4)"
  using review_calculateSM2_agreement
    [of True 4
     "\<lparr>card_id = ''c1'', deckId = ''d1'', stage = New, interval = 1,
       easeFactor = 2.3, nextReviewAt = 0, reviewCount = 0,
       consecutiveCorrect = 0, createdAt = 0,
       nextShowTime = None, repetition = None\<rparr>"]
  by simp

text \<open>
  The learning card of the worked review above: the server answers interval 5 and
  ease factor 2.6, the study page interval 4 and ease factor 2.5.
\<close>

theorem review_calculateSM2_differ_counterexample:
  "newInterval (review_transition
     \<lparr>card_id = ''c1'', deckId = ''d1'', stage = Learning, interval = 1,
       easeFactor = 2.5, nextReviewAt = 0, reviewCount = 0,
       consecutiveCorrect = 1, createdAt = 0,
       nextShowTime = None, repetition = None\<rparr> 4 True) = 5
   \<and> sm2_interval (calculateSM2
     \<lparr>card_id = ''c1'', deckId = ''d1'', stage = Learning, interval = 1,
       easeFactor = 2.5, nextReviewAt = 0, reviewCount = 0,
       consecutiveCorrect = 1, createdAt = 0,
       nextShowTime = None, repetition = None\<rparr> 4) = 4
   \<and> newEaseFactor (review_transition
     \<lparr>card_id = ''c1'', deckId = ''d1'', stage = Learning, interval = 1,
       easeFactor = 2.5, nextReviewAt = 0, reviewCount = 0,
       consecutiveCorrect = 1, createdAt = 0,
       nextShowTime = None, repetition = None\<rparr> 4 True) = 2.6
   \<and> sm2_easeFactor (calculateSM2
     \<lparr>card_id = ''c1'', deckId = ''d1'', stage = Learning, interval = 1,
       easeFactor = 2.5, nextReviewAt = 0, reviewCount = 0,
       consecutiveCorrect = 1, createdAt = 0,
       nextShowTime = None, repetition = None\<rparr> 4) = 2.5"
  by (simp add: review_transition_def review_correct_stage_def review_correct_ease_def
        calculateSM2_fields sm2_unclamped_def sm2_stage_progression_def sm2_success_ease_def)

subsection \<open>The next review date\<close>

lemma ToIntegerOrInfinity_day_plus:
  assumes "0 \<le> d" and "0 \<le> x"
  shows "ToIntegerOrInfinity (real_of_int d + x) = d + \<lfloor>x\<rfloor>"
  using assms by (simp add: ToIntegerOrInfinity_def)

lemma setDate_getDate_plus:
  assumes "1 \<le> dayOfMonth now" and "0 \<le> x"
  shows "setDate now (real_of_int (getDate now) + x) = getTime now + \<lfloor>x\<rfloor> * msPerDay"
proof -
  have "ToIntegerOrInfinity (real_of_int (dayOfMonth now) + x) = dayOfMonth now + \<lfloor>x\<rfloor>"
    using assms by (intro ToIntegerOrInfinity_day_plus) simp_all
  then show ?thesis
    by (simp add: setDate_def getDate_def getTime_def algebra_simps)
qed

lemma study_review_result:
  assumes "study_review db req now = Inr (db', u)"
  shows "\<exists>c \<in> set (cards db). card_id c = req_cardId req
           \<and> u = review_update c (req_quality req) (req_wasCorrect req) now"
proof -
  from assms obtain c where
      f: "find (\<lambda>c. card_id c = req_cardId req) (cards db) = Some c"
      and u: "u = review_update c (req_quality req) (req_wasCorrect req) now"
    by (auto simp add: study_review_def Let_def split: if_splits option.splits)
  from f have "c \<in> set (cards db)" and "card_id c = req_cardId req"
    by (auto simp add: find_Some_iff)
  with u show ?thesis
    by blast
qed

lemma review_transition_interval_pos:
  "0 < newInterval (review_transition c quality wasCorrect)"
  by (cases "stage c")
    (auto simp add: review_transition_def review_correct_stage_def review_failed_stage_def Let_def)

text \<open>
  Claim C3, what the server does. \<^verbatim>\<open>reviewCount\<close> goes up by one, and
  \<^verbatim>\<open>nextReviewAt\<close> is the current time plus the whole days of the new interval:
  \<^verbatim>\<open>setDate\<close> drops the fraction of its argument. A failed review of a card in stage
  new (interval 0.25) or learning (interval 0.5) therefore leaves \<^verbatim>\<open>nextReviewAt\<close> at
  the current time, not 6 or 12 hours later.
\<close>

theorem review_update_nextReviewAt:
  assumes "1 \<le> dayOfMonth now"
  shows "nextReviewAt (review_update c quality wasCorrect now)
           = getTime now + \<lfloor>interval (review_update c quality wasCorrect now)\<rfloor> * msPerDay
       \<and> reviewCount (review_update c quality wasCorrect now) = reviewCount c + 1
       \<and> (stage c = New \<and> \<not> wasCorrect \<longrightarrow>
            interval (review_update c quality wasCorrect now) = 0.25
            \<and> nextReviewAt (review_update c quality wasCorrect now) = getTime now)
       \<and> (stage c = Learning \<and> \<not> wasCorrect \<longrightarrow>
            interval (review_update c quality wasCorrect now) = 0.5
            \<and> nextReviewAt (review_update c quality wasCorrect now) = getTime now)"
proof -
  let ?v = "review_transition c quality wasCorrect"
  have pos: "0 \<le> newInterval ?v"
    using review_transition_interval_pos [of c quality wasCorrect] by simp
  have iv: "interval (review_update c quality wasCorrect now) = newInterval ?v"
    by (simp add: review_update_def Let_def)
  have nx: "nextReviewAt (review_update c quality wasCorrect now)
              = getTime now + \<lfloor>newInterval ?v\<rfloor> * msPerDay"
    using setDate_getDate_plus [OF assms pos] by (simp add: review_update_def Let_def)
  have rc: "reviewCount (review_update c quality wasCorrect now) = reviewCount c + 1"
    by (simp add: review_update_def Let_def)
  have new: "newInterval ?v = 0.25" if "stage c = New" "\<not> wasCorrect"
    using that by (simp add: review_transition_def review_failed_stage_def)
  have learning: "newInterval ?v = 0.5" if "stage c = Learning" "\<not> wasCorrect"
    using that by (simp add: review_transition_def review_failed_stage_def)
  have fl: "\<lfloor>newInterval ?v\<rfloor> = 0"
    if "\<not> wasCorrect" "stage c = New \<or> stage c = Learning"
  proof -
    have "newInterval ?v = 1 / 4 \<or> newInterval ?v = 1 / 2"
      using that new learning by auto
    then show ?thesis
      by (elim disjE) (simp_all only: floor_divide_eq_div_numeral floor_one, simp_all)
  qed
  show ?thesis
    unfolding iv nx rc using new learning fl by simp
qed

text \<open>
  A new card failed on 2 November 2026 at noon: interval 0.25, next review at that
  very instant (1793620800000 ms), review count 1.
\<close>

theorem review_update_nextReviewAt_witness:
  "interval (review_update
     \<lparr>card_id = ''c1'', deckId = ''d1'', stage = New, interval = 1,
       easeFactor = 2.5, nextReviewAt = 0, reviewCount = 0,
       consecutiveCorrect = 0, createdAt = 0\<rparr> 1 False
     \<lparr>monthStartDay = 20758, dayOfMonth = 2, timeWithinDay = 43200000\<rparr>) = 0.25
   \<and> nextReviewAt (review_update
     \<lparr>card_id = ''c1'', deckId = ''d1'', stage = New, interval = 1,
       easeFactor = 2.5, nextReviewAt = 0, reviewCount = 0,
       consecutiveCorrect = 0, createdAt = 0\<rparr> 1 False
     \<lparr>monthStartDay = 20758, dayOfMonth = 2, timeWithinDay = 43200000\<rparr>)
     = getTime \<lparr>monthStartDay = 20758, dayOfMonth = 2, timeWithinDay = 43200000\<rparr>
   \<and> getTime \<lparr>monthStartDay = 20758, dayOfMonth = 2, timeWithinDay = 43200000\<rparr>
     = 1793620800000
   \<and> reviewCount (review_update
     \<lparr>card_id = ''c1'', deckId = ''d1'', stage = New, interval = 1,
       easeFactor = 2.5, nextReviewAt = 0, reviewCount = 0,
       consecutiveCorrect = 0, createdAt = 0\<rparr> 1 False
     \<lparr>monthStartDay = 20758, dayOfMonth = 2, timeWithinDay = 43200000\<rparr>) = 1"
  using review_update_nextReviewAt
    [of "\<lparr>monthStartDay = 20758, dayOfMonth = 2, timeWithinDay = 43200000\<rparr>"
     "\<lparr>card_id = ''c1'', deckId = ''d1'', stage = New, interval = 1,
       easeFactor = 2.5, nextReviewAt = 0, reviewCount = 0,
       consecutiveCorrect = 0, createdAt = 0\<rparr>"
     1 False]
  by (simp add: getTime_def msPerDay_def)

section \<open>Properties of the card queries\<close>

lemma orderBy_two:
  "orderBy_nextReviewAt_createdAt [a, b] =
     (if (nextReviewAt a, createdAt a) \<le> (nextReviewAt b, createdAt b)
      then [a, b] else [b, a])"
  by (simp add: orderBy_nextReviewAt_createdAt_def)

lemma set_orderBy: "set (orderBy_nextReviewAt_createdAt cs) = set cs"
  by (simp add: orderBy_nextReviewAt_createdAt_def)

lemma study_session_cards:
  assumes "study_session db did maxCards = Inr cs" and "c \<in> set cs"
  shows "c \<in> set (cards db) \<and> deckId c = did \<and> stage c \<noteq> Mastered"
proof -
  from assms(1) have cs: "cs = take maxCards
                  (orderBy_nextReviewAt_createdAt
                     (filter (\<lambda>c. deckId c = did \<and> stage c \<noteq> Mastered) (cards db)))"
    by (simp add: study_session_def split: if_splits)
  from assms(2) have "c \<in> set (orderBy_nextReviewAt_createdAt
                     (filter (\<lambda>c. deckId c = did \<and> stage c \<noteq> Mastered) (cards db)))"
    unfolding cs by (rule in_set_takeD)
  then show ?thesis
    by (simp add: set_orderBy)
qed

subsection \<open>What the initial queue holds\<close>

text \<open>
  Claim C5, as amended. The queue of a study session is seeded from the cards that
  the session route returns, and that route selects the cards of the deck that are
  not mastered, due or not. So every entry of the initial queue is a card of the
  store that belongs to the requested deck and is not in stage mastered, with the
  stage and the next review date it has in the store.
\<close>

theorem initial_queue_not_mastered:
  assumes "study_session db did maxCards = Inr cs"
    and "e \<in> set (studyQueue (fetchStudyData cs))"
  shows "deckId e = did \<and> stage e \<noteq> Mastered
       \<and> (\<exists>c \<in> set (cards db). card_id e = card_id c \<and> stage e = stage c
              \<and> nextReviewAt e = nextReviewAt c)"
proof -
  from assms(2) obtain c where c: "c \<in> set cs" and e: "card_id e = card_id c"
      "deckId e = deckId c" "stage e = stage c" "nextReviewAt e = nextReviewAt c"
    by (auto simp add: fetchStudyData_def initialQueue_def split: if_splits)
  from study_session_cards [OF assms(1) c] e show ?thesis
    by auto
qed

theorem initial_queue_not_mastered_witness:
  "study_session
     \<lparr>decks = [''d1''], sessions = [],
     cards = [\<lparr>card_id = ''c1'', deckId = ''d1'', stage = Learning, interval = 3,
          easeFactor = 2.5, nextReviewAt = 1793707200000, reviewCount = 2,
          consecutiveCorrect = 1, createdAt = 0\<rparr>]\<rparr> ''d1'' 100
     = Inr [\<lparr>card_id = ''c1'', deckId = ''d1'', stage = Learning, interval = 3,
          easeFactor = 2.5, nextReviewAt = 1793707200000, reviewCount = 2,
          consecutiveCorrect = 1, createdAt = 0\<rparr>]
   \<and> \<lparr>card_id = ''c1'', deckId = ''d1'', stage = Learning, interval = 3,
          easeFactor = 2.5, nextReviewAt = 1793707200000, reviewCount = 0,
          consecutiveCorrect = 1, createdAt = 0,
          nextShowTime = None, repetition = None\<rparr>
     \<in> set (studyQueue (fetchStudyData
         [\<lparr>card_id = ''c1'', deckId = ''d1'', stage = Learning, interval = 3,
          easeFactor = 2.5, nextReviewAt = 1793707200000, reviewCount = 2,
          consecutiveCorrect = 1, createdAt = 0\<rparr>]))
   \<and> deckId \<lparr>card_id = ''c1'', deckId = ''d1'', stage = Learning, interval = 3,
          easeFactor = 2.5, nextReviewAt = 1793707200000, reviewCount = 0,
          consecutiveCorrect = 1, createdAt = 0,
          nextShowTime = None, repetition = None\<rparr> = ''d1''
   \<and> stage \<lparr>card_id = ''c1'', deckId = ''d1'', stage = Learning, interval = 3,
          easeFactor = 2.5, nextReviewAt = 1793707200000, reviewCount = 0,
          consecutiveCorrect = 1, createdAt = 0,
          nextShowTime = None, repetition = None\<rparr> \<noteq> Mastered"
  using initial_queue_not_mastered
    [of "\<lparr>decks = [''d1''], sessions = [],
     cards = [\<lparr>card_id = ''c1'', deckId = ''d1'', stage = Learning, interval = 3,
          easeFactor = 2.5, nextReviewAt = 1793707200000, reviewCount = 2,
          consecutiveCorrect = 1, createdAt = 0\<rparr>]\<rparr>" "''d1''" 100
        "[\<lparr>card_id = ''c1'', deckId = ''d1'', stage = Learning, interval = 3,
          easeFactor = 2.5, nextReviewAt = 1793707200000, reviewCount = 2,
          consecutiveCorrect = 1, createdAt = 0\<rparr>]"
        "\<lparr>card_id = ''c1'', deckId = ''d1'', stage = Learning, interval = 3,
          easeFactor = 2.5, nextReviewAt = 1793707200000, reviewCount = 0,
          consecutiveCorrect = 1, createdAt = 0,
          nextShowTime = None, repetition = None\<rparr>"]
  by (simp add: study_session_def orderBy_nextReviewAt_createdAt_def fetchStudyData_def
      initialQueue_def)

text \<open>
  A learning card that is due one day after the session starts (2 November 2026 at
  noon) is placed in the initial queue.
\<close>

theorem initial_queue_due_counterexample:
  "study_session
     \<lparr>decks = [''d1''], sessions = [],
     cards = [\<lparr>card_id = ''c1'', deckId = ''d1'', stage = Learning, interval = 3,
          easeFactor = 2.5, nextReviewAt = 1793707200000, reviewCount = 2,
          consecutiveCorrect = 1, createdAt = 0\<rparr>]\<rparr> ''d1'' 100
     = Inr [\<lparr>card_id = ''c1'', deckId = ''d1'', stage = Learning, interval = 3,
          easeFactor = 2.5, nextReviewAt = 1793707200000, reviewCount = 2,
          consecutiveCorrect = 1, createdAt = 0\<rparr>]
   \<and> studyQueue (fetchStudyData
         [\<lparr>card_id = ''c1'', deckId = ''d1'', stage = Learning, interval = 3,
          easeFactor = 2.5, nextReviewAt = 1793707200000, reviewCount = 2,
          consecutiveCorrect = 1, createdAt = 0\<rparr>])
     = [\<lparr>card_id = ''c1'', deckId = ''d1'', stage = Learning, interval = 3,
          easeFactor = 2.5, nextReviewAt = 1793707200000, reviewCount = 0,
          consecutiveCorrect = 1, createdAt = 0,
          nextShowTime = None, repetition = None\<rparr>]
   \<and> \<not> is_due \<lparr>monthStartDay = 20758, dayOfMonth = 2, timeWithinDay = 43200000\<rparr>
         \<lparr>card_id = ''c1'', deckId = ''d1'', stage = Learning, interval = 3,
          easeFactor = 2.5, nextReviewAt = 1793707200000, reviewCount = 0,
          consecutiveCorrect = 1, createdAt = 0,
          nextShowTime = None, repetition = None\<rparr>"
  by (simp add: study_session_def orderBy_nextReviewAt_createdAt_def fetchStudyData_def
      initialQueue_def is_due_def getTime_def msPerDay_def)

subsection \<open>The due set at the boundary\<close>

text \<open>
  Claim C6, as amended. Of three cards, none in stage new, whose next review dates
  are one millisecond after, one millisecond before and exactly at the time of the
  query, the due route returns two: the card due before that time first, then the
  card due exactly at it (the comparison is \<^verbatim>\<open>lte\<close>). Only the card due later is
  left out, and the total is 2.
\<close>

theorem study_due_three_cards:
  assumes "cards db = [c1, c2, c3]"
    and "stage c1 \<noteq> New" and "stage c2 \<noteq> New" and "stage c3 \<noteq> New"
    and "nextReviewAt c1 = getTime now + 1"
    and "nextReviewAt c2 = getTime now - 1"
    and "nextReviewAt c3 = getTime now"
  shows "study_due db None now = ([c2, c3], 2)"
  using assms
  by (simp add: study_due_def is_due_def orderBy_two)

theorem study_due_three_cards_witness:
  "getTime \<lparr>monthStartDay = 20758, dayOfMonth = 2, timeWithinDay = 43200000\<rparr> = 1793620800000
   \<and> study_due
       \<lparr>decks = [''d1''], sessions = [],
     cards = [\<lparr>card_id = ''c1'', deckId = ''d1'', stage = Learning, interval = 3,
          easeFactor = 2.5, nextReviewAt = 1793620800001, reviewCount = 2,
          consecutiveCorrect = 1, createdAt = 10\<rparr>,
         \<lparr>card_id = ''c2'', deckId = ''d1'', stage = Review, interval = 3,
          easeFactor = 2.5, nextReviewAt = 1793620799999, reviewCount = 2,
          consecutiveCorrect = 1, createdAt = 20\<rparr>,
         \<lparr>card_id = ''c3'', deckId = ''d1'', stage = Learning, interval = 3,
          easeFactor = 2.5, nextReviewAt = 1793620800000, reviewCount = 2,
          consecutiveCorrect = 1, createdAt = 30\<rparr>]\<rparr>
       None \<lparr>monthStartDay = 20758, dayOfMonth = 2, timeWithinDay = 43200000\<rparr>
     = ([\<lparr>card_id = ''c2'', deckId = ''d1'', stage = Review, interval = 3,
          easeFactor = 2.5, nextReviewAt = 1793620799999, reviewCount = 2,
          consecutiveCorrect = 1, createdAt = 20\<rparr>,
         \<lparr>card_id = ''c3'', deckId = ''d1'', stage = Learning, interval = 3,
          easeFactor = 2.5, nextReviewAt = 1793620800000, reviewCount = 2,
          consecutiveCorrect = 1, createdAt = 30\<rparr>], 2)"
  using study_due_three_cards
    [of "\<lparr>decks = [''d1''], sessions = [],
     cards = [\<lparr>card_id = ''c1'', deckId = ''d1'', stage = Learning, interval = 3,
          easeFactor = 2.5, nextReviewAt = 1793620800001, reviewCount = 2,
          consecutiveCorrect = 1, createdAt = 10\<rparr>,
         \<lparr>card_id = ''c2'', deckId = ''d1'', stage = Review, interval = 3,
          easeFactor = 2.5, nextReviewAt = 1793620799999, reviewCount = 2,
          consecutiveCorrect = 1, createdAt = 20\<rparr>,
         \<lparr>card_id = ''c3'', deckId = ''d1'', stage = Learning, interval = 3,
          easeFactor = 2.5, nextReviewAt = 1793620800000, reviewCount = 2,
          consecutiveCorrect = 1, createdAt = 30\<rparr>]\<rparr>"
        "\<lparr>card_id = ''c1'', deckId = ''d1'', stage = Learning, interval = 3,
          easeFactor = 2.5, nextReviewAt = 1793620800001, reviewCount = 2,
          consecutiveCorrect = 1, createdAt = 10\<rparr>"
        "\<lparr>card_id = ''c2'', deckId = ''d1'', stage = Review, interval = 3,
          easeFactor = 2.5, nextReviewAt = 1793620799999, reviewCount = 2,
          consecutiveCorrect = 1, createdAt = 20\<rparr>"
        "\<lparr>card_id = ''c3'', deckId = ''d1'', stage = Learning, interval = 3,
          easeFactor = 2.5, nextReviewAt = 1793620800000, reviewCount = 2,
          consecutiveCorrect = 1, createdAt = 30\<rparr>"
        "\<lparr>monthStartDay = 20758, dayOfMonth = 2, timeWithinDay = 43200000\<rparr>"]
  by (simp add: getTime_def msPerDay_def)

theorem study_due_boundary_counterexample:
  "getTime \<lparr>monthStartDay = 20758, dayOfMonth = 2, timeWithinDay = 43200000\<rparr> = 1793620800000
   \<and> fst (study_due
       \<lparr>decks = [''d1''], sessions = [],
     cards = [\<lparr>card_id = ''c1'', deckId = ''d1'', stage = Learning, interval = 3,
          easeFactor = 2.5, nextReviewAt = 1793620800001, reviewCount = 2,
          consecutiveCorrect = 1, createdAt = 10\<rparr>,
         \<lparr>card_id = ''c2'', deckId = ''d1'', stage = Review, interval = 3,
          easeFactor = 2.5, nextReviewAt = 1793620799999, reviewCount = 2,
          consecutiveCorrect = 1, createdAt = 20\<rparr>,
         \<lparr>card_id = ''c3'', deckId = ''d1'', stage = Learning, interval = 3,
          easeFactor = 2.5, nextReviewAt = 1793620800000, reviewCount = 2,
          consecutiveCorrect = 1, createdAt = 30\<rparr>]\<rparr>
       None \<lparr>monthStartDay = 20758, dayOfMonth = 2, timeWithinDay = 43200000\<rparr>)
     \<noteq> [\<lparr>card_id = ''c2'', deckId = ''d1'', stage = Review, interval = 3,
          easeFactor = 2.5, nextReviewAt = 1793620799999, reviewCount = 2,
          consecutiveCorrect = 1, createdAt = 20\<rparr>]"
  by (simp add: study_due_def is_due_def orderBy_two getTime_def msPerDay_def)

section \<open>Properties of the study session\<close>

lemma Suc_mod_wrap:
  assumes "i < n"
  shows "Suc i mod n = (if n \<le> Suc i then 0 else Suc i)"
proof (cases "Suc i = n")
  case True
  then show ?thesis by simp
next
  case False
  with assms have "Suc i < n" by simp
  then show ?thesis by simp
qed

lemma stage_reviewed_entry:
  "stage (reviewed_entry e quality) = sm2_stage (calculateSM2 e quality)"
  by (simp add: reviewed_entry_def assign_sm2_def)

lemma handleCardReview_no_card:
  "length (studyQueue s) \<le> currentCardIndex s \<Longrightarrow>
   handleCardReview s quality responseTime wasCorrect outcome = s"
  by (simp add: handleCardReview_def)

lemma handleCardReview_studyQueue:
  assumes "currentCardIndex s < length (studyQueue s)"
  shows "studyQueue (handleCardReview s quality responseTime wasCorrect outcome)
     = (if stage (reviewed_entry (studyQueue s ! currentCardIndex s) quality) = Mastered
        then splice1 (currentCardIndex s)
               ((studyQueue s)[currentCardIndex s :=
                   reviewed_entry (studyQueue s ! currentCardIndex s) quality])
        else (studyQueue s)[currentCardIndex s :=
                   reviewed_entry (studyQueue s ! currentCardIndex s) quality])"
  using assms by (simp add: handleCardReview_def stage_reviewed_entry Let_def)

lemma handleCardReview_currentCardIndex:
  assumes "currentCardIndex s < length (studyQueue s)"
  shows "currentCardIndex (handleCardReview s quality responseTime wasCorrect outcome)
     = (if stage (reviewed_entry (studyQueue s ! currentCardIndex s) quality) = Mastered
        then (if currentCardIndex s \<ge> length (studyQueue s) - 1 \<and> length (studyQueue s) - 1 > 0
              then 0 else currentCardIndex s)
        else (if currentCardIndex s + 1 \<ge> length (studyQueue s) then 0
              else currentCardIndex s + 1))"
  using assms
  by (auto simp add: handleCardReview_def stage_reviewed_entry Let_def splice1_def min_def
      Suc_mod_wrap)

lemma splice1_update:
  assumes "i < length xs"
  shows "splice1 i (xs[i := y]) = take i xs @ drop (Suc i) xs"
  using assms by (simp add: splice1_def)

lemma filter_splice1:
  assumes "i < length xs" and "\<not> P (xs ! i)"
  shows "filter P (splice1 i xs) = filter P xs"
proof -
  have "filter P xs = filter P (take i xs @ xs ! i # drop (Suc i) xs)"
    using assms(1) by (simp add: id_take_nth_drop [symmetric])
  also have "\<dots> = filter P (splice1 i xs)"
    using assms(2) by (simp add: splice1_def)
  finally show ?thesis by simp
qed

lemma calculateStageProgress_splice1:
  assumes "i < length q" and "stage (q ! i) = Mastered"
  shows "calculateStageProgress (splice1 i q) n = calculateStageProgress q n"
  using assms by (simp add: calculateStageProgress_def filter_splice1)

lemma handleCardReview_sessionStats:
  assumes "currentCardIndex s < length (studyQueue s)"
  shows "sessionStats (handleCardReview s quality responseTime wasCorrect outcome)
     = \<lparr>studied = (if stage (reviewed_entry (studyQueue s ! currentCardIndex s) quality) = Mastered
                   then studied (sessionStats s) + 1 else studied (sessionStats s)),
        correct = correct (sessionStats s) + (if wasCorrect then 1 else 0),
        totalReviews = totalReviews (sessionStats s) + 1,
        stageProgress =
          calculateStageProgress
            ((studyQueue s)[currentCardIndex s :=
                reviewed_entry (studyQueue s ! currentCardIndex s) quality])
            (if stage (reviewed_entry (studyQueue s ! currentCardIndex s) quality) = Mastered
             then studied (sessionStats s) + 1 else studied (sessionStats s))\<rparr>"
  using assms
  by (simp add: handleCardReview_def stage_reviewed_entry Let_def calculateStageProgress_splice1)

lemma handleCardReview_isOfflineMode:
  assumes "currentCardIndex s < length (studyQueue s)"
  shows "isOfflineMode (handleCardReview s quality responseTime wasCorrect outcome)
     = (\<not> (reviewData_valid (reviewed_entry (studyQueue s ! currentCardIndex s) quality)
              quality responseTime \<and> outcome = Submitted))"
  using assms by (simp add: handleCardReview_def Let_def)


lemma handleCardReview_index_valid:
  assumes "currentCardIndex s < length (studyQueue s)"
  shows "studyQueue (handleCardReview s quality responseTime wasCorrect outcome) = []
       \<or> currentCardIndex (handleCardReview s quality responseTime wasCorrect outcome)
           < length (studyQueue (handleCardReview s quality responseTime wasCorrect outcome))"
proof (cases "stage (reviewed_entry (studyQueue s ! currentCardIndex s) quality) = Mastered")
  case True
  with assms show ?thesis
    unfolding handleCardReview_studyQueue [OF assms] handleCardReview_currentCardIndex [OF assms]
    by (auto simp add: splice1_def min_def)
next
  case False
  with assms show ?thesis
    unfolding handleCardReview_studyQueue [OF assms] handleCardReview_currentCardIndex [OF assms]
    by auto
qed

subsection \<open>Placement after a review\<close>

text \<open>
  Claim C7. When the page has a current card and a review of it is submitted, the
  reviewed entry leaves the queue exactly when its new stage is mastered: then the
  queue is the old one without that position, one entry shorter. Otherwise the queue
  keeps its length, the entry stays at its position with its new state, and the
  index moves to the next position, or to 0 from the last one. The session is complete
  exactly when the queue is empty. This holds whether or not the submission to the
  server succeeds.
\<close>

theorem handleCardReview_placement:
  assumes "i = currentCardIndex s" and "q = studyQueue s" and "i < length q"
    and "s' = handleCardReview s quality responseTime wasCorrect outcome"
    and "e' = reviewed_entry (q ! i) quality"
  shows "(stage e' = Mastered \<longrightarrow>
            studyQueue s' = take i q @ drop (Suc i) q
            \<and> length (studyQueue s') = length q - 1)
       \<and> (stage e' \<noteq> Mastered \<longrightarrow>
            studyQueue s' = q[i := e']
            \<and> length (studyQueue s') = length q
            \<and> currentCardIndex s' = (if i + 1 < length q then i + 1 else 0))
       \<and> (isSessionComplete s' \<longleftrightarrow> studyQueue s' = [])"
proof -
  have cur: "currentCardIndex s < length (studyQueue s)"
    using assms(1-3) by simp
  have sq: "studyQueue s' = (if stage e' = Mastered then splice1 i (q[i := e']) else q[i := e'])"
    unfolding assms(4) handleCardReview_studyQueue [OF cur] by (simp add: assms)
  have ix: "stage e' \<noteq> Mastered \<Longrightarrow>
            currentCardIndex s' = (if i + 1 < length q then i + 1 else 0)"
    unfolding assms(4) handleCardReview_currentCardIndex [OF cur] by (auto simp add: assms)
  show ?thesis
    using assms(3) ix by (auto simp add: sq splice1_update isSessionComplete_def min_def)
qed

theorem handleCardReview_placement_witness:
  "studyQueue (handleCardReview (fetchStudyData 
        [\<lparr>card_id = ''c1'', deckId = ''d1'', stage = Review, interval = 4,
          easeFactor = 2.5, nextReviewAt = 0, reviewCount = 2,
          consecutiveCorrect = 1, createdAt = 0\<rparr>,
         \<lparr>card_id = ''c2'', deckId = ''d1'', stage = New, interval = 4,
          easeFactor = 2.5, nextReviewAt = 0, reviewCount = 2,
          consecutiveCorrect = 0, createdAt = 0\<rparr>]) 4 1500 True Submitted)
     = initialQueue 
        [\<lparr>card_id = ''c2'', deckId = ''d1'', stage = New, interval = 4,
          easeFactor = 2.5, nextReviewAt = 0, reviewCount = 2,
          consecutiveCorrect = 0, createdAt = 0\<rparr>]
   \<and> \<not> isSessionComplete (handleCardReview (fetchStudyData 
        [\<lparr>card_id = ''c1'', deckId = ''d1'', stage = Review, interval = 4,
          easeFactor = 2.5, nextReviewAt = 0, reviewCount = 2,
          consecutiveCorrect = 1, createdAt = 0\<rparr>,
         \<lparr>card_id = ''c2'', deckId = ''d1'', stage = New, interval = 4,
          easeFactor = 2.5, nextReviewAt = 0, reviewCount = 2,
          consecutiveCorrect = 0, createdAt = 0\<rparr>]) 4 1500 True Submitted)
   \<and> length (studyQueue (handleCardReview (fetchStudyData 
        [\<lparr>card_id = ''c1'', deckId = ''d1'', stage = Review, interval = 4,
          easeFactor = 2.5, nextReviewAt = 0, reviewCount = 2,
          consecutiveCorrect = 1, createdAt = 0\<rparr>,
         \<lparr>card_id = ''c2'', deckId = ''d1'', stage = New, interval = 4,
          easeFactor = 2.5, nextReviewAt = 0, reviewCount = 2,
          consecutiveCorrect = 0, createdAt = 0\<rparr>]) 3 1500 True Submitted)) = 2
   \<and> currentCardIndex (handleCardReview (fetchStudyData 
        [\<lparr>card_id = ''c1'', deckId = ''d1'', stage = Review, interval = 4,
          easeFactor = 2.5, nextReviewAt = 0, reviewCount = 2,
          consecutiveCorrect = 1, createdAt = 0\<rparr>,
         \<lparr>card_id = ''c2'', deckId = ''d1'', stage = New, interval = 4,
          easeFactor = 2.5, nextReviewAt = 0, reviewCount = 2,
          consecutiveCorrect = 0, createdAt = 0\<rparr>]) 3 1500 True Submitted) = 1
   \<and> length (studyQueue (handleCardReview (fetchStudyData 
        [\<lparr>card_id = ''c1'', deckId = ''d1'', stage = Review, interval = 4,
          easeFactor = 2.5, nextReviewAt = 0, reviewCount = 2,
          consecutiveCorrect = 1, createdAt = 0\<rparr>]) 3 1500 True Submitted)) = 1
   \<and> currentCardIndex (handleCardReview (fetchStudyData 
        [\<lparr>card_id = ''c1'', deckId = ''d1'', stage = Review, interval = 4,
          easeFactor = 2.5, nextReviewAt = 0, reviewCount = 2,
          consecutiveCorrect = 1, createdAt = 0\<rparr>]) 3 1500 True Submitted) = 0
   \<and> isSessionComplete (handleCardReview (fetchStudyData 
        [\<lparr>card_id = ''c1'', deckId = ''d1'', stage = Review, interval = 4,
          easeFactor = 2.5, nextReviewAt = 0, reviewCount = 2,
          consecutiveCorrect = 1, createdAt = 0\<rparr>]) 4 1500 True Submitted)"
  using
    handleCardReview_placement [OF refl refl _ refl refl,
      where s = "fetchStudyData 
        [\<lparr>card_id = ''c1'', deckId = ''d1'', stage = Review, interval = 4,
          easeFactor = 2.5, nextReviewAt = 0, reviewCount = 2,
          consecutiveCorrect = 1, createdAt = 0\<rparr>,
         \<lparr>card_id = ''c2'', deckId = ''d1'', stage = New, interval = 4,
          easeFactor = 2.5, nextReviewAt = 0, reviewCount = 2,
          consecutiveCorrect = 0, createdAt = 0\<rparr>]" and quality = 4 and responseTime = 1500
        and wasCorrect = True and outcome = Submitted]
    handleCardReview_placement [OF refl refl _ refl refl,
      where s = "fetchStudyData 
        [\<lparr>card_id = ''c1'', deckId = ''d1'', stage = Review, interval = 4,
          easeFactor = 2.5, nextReviewAt = 0, reviewCount = 2,
          consecutiveCorrect = 1, createdAt = 0\<rparr>,
         \<lparr>card_id = ''c2'', deckId = ''d1'', stage = New, interval = 4,
          easeFactor = 2.5, nextReviewAt = 0, reviewCount = 2,
          consecutiveCorrect = 0, createdAt = 0\<rparr>]" and quality = 3 and responseTime = 1500
        and wasCorrect = True and outcome = Submitted]
    handleCardReview_placement [OF refl refl _ refl refl,
      where s = "fetchStudyData 
        [\<lparr>card_id = ''c1'', deckId = ''d1'', stage = Review, interval = 4,
          easeFactor = 2.5, nextReviewAt = 0, reviewCount = 2,
          consecutiveCorrect = 1, createdAt = 0\<rparr>]" and quality = 3 and responseTime = 1500
        and wasCorrect = True and outcome = Submitted]
    handleCardReview_placement [OF refl refl _ refl refl,
      where s = "fetchStudyData 
        [\<lparr>card_id = ''c1'', deckId = ''d1'', stage = Review, interval = 4,
          easeFactor = 2.5, nextReviewAt = 0, reviewCount = 2,
          consecutiveCorrect = 1, createdAt = 0\<rparr>]" and quality = 4 and responseTime = 1500
        and wasCorrect = True and outcome = Submitted]
  by (simp add: fetchStudyData_def initialQueue_def stage_reviewed_entry calculateSM2_fields
      sm2_unclamped_def sm2_stage_progression_def)

subsection \<open>A failed submission\<close>

text \<open>
  Claim C9. When the page has a current card and the submission of its review fails,
  the entry still takes the state that \<^verbatim>\<open>calculateSM2\<close> computed locally, with its
  review count raised by one. If that state is stage mastered the entry is removed
  from the queue, and the index goes back to 0 when it would point past the end of a
  queue that is not empty. Otherwise the entry stays at its position and the index
  moves to the next position, or to 0 from the last one. The session counters are
  updated. The queue, the index and the counters are the same as after a successful
  submission. The failure only sets the offline indicator, which a successful
  submission of valid review data clears, and it leaves a state that is either
  complete or has a current card, so the session goes on.
\<close>

theorem handleCardReview_submit_failed:
  assumes "failed = handleCardReview s quality responseTime wasCorrect SubmitFailed"
    and "ok = handleCardReview s quality responseTime wasCorrect Submitted"
    and "i = currentCardIndex s" and "q = studyQueue s"
    and "r = calculateSM2 (q ! i) quality"
    and "e' = reviewed_entry (q ! i) quality"
    and "n = (if sm2_stage r = Mastered then studied (sessionStats s) + 1
              else studied (sessionStats s))"
  shows "studyQueue failed = studyQueue ok
       \<and> currentCardIndex failed = currentCardIndex ok
       \<and> sessionStats failed = sessionStats ok
       \<and> (i < length q \<longrightarrow>
            e' = (q ! i)\<lparr>interval := sm2_interval r,
                          repetition := Some (sm2_repetition r),
                          easeFactor := sm2_easeFactor r,
                          stage := sm2_stage r,
                          consecutiveCorrect := sm2_consecutiveCorrect r,
                          reviewCount := reviewCount (q ! i) + 1\<rparr>
            \<and> studyQueue failed
                = (if sm2_stage r = Mastered then take i q @ drop (Suc i) q else q[i := e'])
            \<and> currentCardIndex failed
                = (if sm2_stage r = Mastered
                   then (if length q - 1 \<le> i \<and> 0 < length q - 1 then 0 else i)
                   else (if i + 1 < length q then i + 1 else 0))
            \<and> sessionStats failed
                = \<lparr>studied = n,
                   correct = correct (sessionStats s) + (if wasCorrect then 1 else 0),
                   totalReviews = totalReviews (sessionStats s) + 1,
                   stageProgress = calculateStageProgress (studyQueue failed) n\<rparr>
            \<and> isOfflineMode failed
            \<and> (studyQueue failed = [] \<or> currentCardIndex failed < length (studyQueue failed))
            \<and> (reviewData_valid e' quality responseTime \<longrightarrow> \<not> isOfflineMode ok))"
proof (cases "currentCardIndex s < length (studyQueue s)")
  case True
  have st: "stage e' = sm2_stage r"
    by (simp add: assms(4-6) stage_reviewed_entry)
  have e': "e' = (q ! i)\<lparr>interval := sm2_interval r,
                          repetition := Some (sm2_repetition r),
                          easeFactor := sm2_easeFactor r,
                          stage := sm2_stage r,
                          consecutiveCorrect := sm2_consecutiveCorrect r,
                          reviewCount := reviewCount (q ! i) + 1\<rparr>"
    by (simp add: assms(5,6) reviewed_entry_def assign_sm2_def)
  have sq: "studyQueue failed
              = (if sm2_stage r = Mastered then take i q @ drop (Suc i) q else q[i := e'])"
    using True
    by (simp add: assms(1,3,4,6) st [symmetric] handleCardReview_studyQueue [OF True]
        splice1_update)
  have ix: "currentCardIndex failed
              = (if sm2_stage r = Mastered
                 then (if length q - 1 \<le> i \<and> 0 < length q - 1 then 0 else i)
                 else (if i + 1 < length q then i + 1 else 0))"
    using True
    by (auto simp add: assms(1,3,4,6) st [symmetric] handleCardReview_currentCardIndex [OF True])
  have sp: "calculateStageProgress (studyQueue failed) n
              = calculateStageProgress (q[i := e']) n"
  proof (cases "sm2_stage r = Mastered")
    case m: True
    have "calculateStageProgress (splice1 i (q[i := e'])) n
            = calculateStageProgress (q[i := e']) n"
      using True m by (intro calculateStageProgress_splice1) (simp_all add: assms(3,4) st)
    with True m show ?thesis
      by (simp add: sq assms(3,4) splice1_update)
  next
    case False
    then show ?thesis by (simp add: sq)
  qed
  have ss: "sessionStats failed
              = \<lparr>studied = n,
                 correct = correct (sessionStats s) + (if wasCorrect then 1 else 0),
                 totalReviews = totalReviews (sessionStats s) + 1,
                 stageProgress = calculateStageProgress (studyQueue failed) n\<rparr>"
    unfolding sp
    by (simp add: assms(1,3,4,6,7) st [symmetric] handleCardReview_sessionStats [OF True])
  have same: "studyQueue failed = studyQueue ok" "currentCardIndex failed = currentCardIndex ok"
      "sessionStats failed = sessionStats ok"
    by (simp_all add: assms(1,2) handleCardReview_studyQueue [OF True]
        handleCardReview_currentCardIndex [OF True] handleCardReview_sessionStats [OF True])
  have off: "isOfflineMode failed"
      "reviewData_valid e' quality responseTime \<longrightarrow> \<not> isOfflineMode ok"
    by (simp_all add: assms(1-4,6) handleCardReview_isOfflineMode [OF True])
  have valid: "studyQueue failed = [] \<or> currentCardIndex failed < length (studyQueue failed)"
    unfolding assms(1) by (rule handleCardReview_index_valid [OF True])
  from e' sq ix ss same off valid show ?thesis
    by blast
next
  case False
  then have "failed = s" "ok = s"
    by (simp_all add: assms(1,2) handleCardReview_no_card)
  with False show ?thesis
    by (simp add: assms(3,4))
qed

theorem handleCardReview_submit_failed_witness:
  "studyQueue (handleCardReview (fetchStudyData
         [\<lparr>card_id = ''c1'', deckId = ''d1'', stage = Review, interval = 4,
           easeFactor = 2.5, nextReviewAt = 0, reviewCount = 2,
           consecutiveCorrect = 1, createdAt = 0\<rparr>,
          \<lparr>card_id = ''c2'', deckId = ''d1'', stage = New, interval = 4,
           easeFactor = 2.5, nextReviewAt = 0, reviewCount = 2,
           consecutiveCorrect = 0, createdAt = 0\<rparr>]) 4 1500 True SubmitFailed)
     = initialQueue
         [\<lparr>card_id = ''c2'', deckId = ''d1'', stage = New, interval = 4,
           easeFactor = 2.5, nextReviewAt = 0, reviewCount = 2,
           consecutiveCorrect = 0, createdAt = 0\<rparr>]
   \<and> currentCardIndex (handleCardReview (fetchStudyData
         [\<lparr>card_id = ''c1'', deckId = ''d1'', stage = Review, interval = 4,
           easeFactor = 2.5, nextReviewAt = 0, reviewCount = 2,
           consecutiveCorrect = 1, createdAt = 0\<rparr>,
          \<lparr>card_id = ''c2'', deckId = ''d1'', stage = New, interval = 4,
           easeFactor = 2.5, nextReviewAt = 0, reviewCount = 2,
           consecutiveCorrect = 0, createdAt = 0\<rparr>]) 4 1500 True SubmitFailed) = 0
   \<and> isOfflineMode (handleCardReview (fetchStudyData
         [\<lparr>card_id = ''c1'', deckId = ''d1'', stage = Review, interval = 4,
           easeFactor = 2.5, nextReviewAt = 0, reviewCount = 2,
           consecutiveCorrect = 1, createdAt = 0\<rparr>,
          \<lparr>card_id = ''c2'', deckId = ''d1'', stage = New, interval = 4,
           easeFactor = 2.5, nextReviewAt = 0, reviewCount = 2,
           consecutiveCorrect = 0, createdAt = 0\<rparr>]) 4 1500 True SubmitFailed)
   \<and> \<not> isOfflineMode (handleCardReview (fetchStudyData
         [\<lparr>card_id = ''c1'', deckId = ''d1'', stage = Review, interval = 4,
           easeFactor = 2.5, nextReviewAt = 0, reviewCount = 2,
           consecutiveCorrect = 1, createdAt = 0\<rparr>,
          \<lparr>card_id = ''c2'', deckId = ''d1'', stage = New, interval = 4,
           easeFactor = 2.5, nextReviewAt = 0, reviewCount = 2,
           consecutiveCorrect = 0, createdAt = 0\<rparr>]) 4 1500 True Submitted)
   \<and> studied (sessionStats (handleCardReview (fetchStudyData
         [\<lparr>card_id = ''c1'', deckId = ''d1'', stage = Review, interval = 4,
           easeFactor = 2.5, nextReviewAt = 0, reviewCount = 2,
           consecutiveCorrect = 1, createdAt = 0\<rparr>,
          \<lparr>card_id = ''c2'', deckId = ''d1'', stage = New, interval = 4,
           easeFactor = 2.5, nextReviewAt = 0, reviewCount = 2,
           consecutiveCorrect = 0, createdAt = 0\<rparr>]) 4 1500 True SubmitFailed)) = 1
   \<and> totalReviews (sessionStats (handleCardReview (fetchStudyData
         [\<lparr>card_id = ''c1'', deckId = ''d1'', stage = Review, interval = 4,
           easeFactor = 2.5, nextReviewAt = 0, reviewCount = 2,
           consecutiveCorrect = 1, createdAt = 0\<rparr>,
          \<lparr>card_id = ''c2'', deckId = ''d1'', stage = New, interval = 4,
           easeFactor = 2.5, nextReviewAt = 0, reviewCount = 2,
           consecutiveCorrect = 0, createdAt = 0\<rparr>]) 4 1500 True SubmitFailed)) = 1
   \<and> length (studyQueue (handleCardReview (fetchStudyData
         [\<lparr>card_id = ''c1'', deckId = ''d1'', stage = Review, interval = 4,
           easeFactor = 2.5, nextReviewAt = 0, reviewCount = 2,
           consecutiveCorrect = 1, createdAt = 0\<rparr>,
          \<lparr>card_id = ''c2'', deckId = ''d1'', stage = New, interval = 4,
           easeFactor = 2.5, nextReviewAt = 0, reviewCount = 2,
           consecutiveCorrect = 0, createdAt = 0\<rparr>]) 3 1500 True SubmitFailed)) = 2
   \<and> stage (studyQueue (handleCardReview (fetchStudyData
         [\<lparr>card_id = ''c1'', deckId = ''d1'', stage = Review, interval = 4,
           easeFactor = 2.5, nextReviewAt = 0, reviewCount = 2,
           consecutiveCorrect = 1, createdAt = 0\<rparr>,
          \<lparr>card_id = ''c2'', deckId = ''d1'', stage = New, interval = 4,
           easeFactor = 2.5, nextReviewAt = 0, reviewCount = 2,
           consecutiveCorrect = 0, createdAt = 0\<rparr>]) 3 1500 True SubmitFailed) ! 0) = Review
   \<and> consecutiveCorrect (studyQueue (handleCardReview (fetchStudyData
         [\<lparr>card_id = ''c1'', deckId = ''d1'', stage = Review, interval = 4,
           easeFactor = 2.5, nextReviewAt = 0, reviewCount = 2,
           consecutiveCorrect = 1, createdAt = 0\<rparr>,
          \<lparr>card_id = ''c2'', deckId = ''d1'', stage = New, interval = 4,
           easeFactor = 2.5, nextReviewAt = 0, reviewCount = 2,
           consecutiveCorrect = 0, createdAt = 0\<rparr>]) 3 1500 True SubmitFailed) ! 0) = 2
   \<and> reviewCount (studyQueue (handleCardReview (fetchStudyData
         [\<lparr>card_id = ''c1'', deckId = ''d1'', stage = Review, interval = 4,
           easeFactor = 2.5, nextReviewAt = 0, reviewCount = 2,
           consecutiveCorrect = 1, createdAt = 0\<rparr>,
          \<lparr>card_id = ''c2'', deckId = ''d1'', stage = New, interval = 4,
           easeFactor = 2.5, nextReviewAt = 0, reviewCount = 2,
           consecutiveCorrect = 0, createdAt = 0\<rparr>]) 3 1500 True SubmitFailed) ! 0) = 1
   \<and> currentCardIndex (handleCardReview (fetchStudyData
         [\<lparr>card_id = ''c1'', deckId = ''d1'', stage = Review, interval = 4,
           easeFactor = 2.5, nextReviewAt = 0, reviewCount = 2,
           consecutiveCorrect = 1, createdAt = 0\<rparr>,
          \<lparr>card_id = ''c2'', deckId = ''d1'', stage = New, interval = 4,
           easeFactor = 2.5, nextReviewAt = 0, reviewCount = 2,
           consecutiveCorrect = 0, createdAt = 0\<rparr>]) 3 1500 True SubmitFailed) = 1
   \<and> length (studyQueue (handleCardReview (fetchStudyData
         [\<lparr>card_id = ''c1'', deckId = ''d1'', stage = Review, interval = 4,
           easeFactor = 2.5, nextReviewAt = 0, reviewCount = 2,
           consecutiveCorrect = 1, createdAt = 0\<rparr>]) 3 1500 True SubmitFailed)) = 1
   \<and> currentCardIndex (handleCardReview (fetchStudyData
         [\<lparr>card_id = ''c1'', deckId = ''d1'', stage = Review, interval = 4,
           easeFactor = 2.5, nextReviewAt = 0, reviewCount = 2,
           consecutiveCorrect = 1, createdAt = 0\<rparr>]) 3 1500 True SubmitFailed) = 0
   \<and> studyQueue (handleCardReview (fetchStudyData
         [\<lparr>card_id = ''c1'', deckId = ''d1'', stage = Review, interval = 4,
           easeFactor = 2.5, nextReviewAt = 0, reviewCount = 2,
           consecutiveCorrect = 1, createdAt = 0\<rparr>]) 4 1500 True SubmitFailed) = []"
  using
    handleCardReview_submit_failed [OF refl refl refl refl refl refl refl,
      where s = "(fetchStudyData
         [\<lparr>card_id = ''c1'', deckId = ''d1'', stage = Review, interval = 4,
           easeFactor = 2.5, nextReviewAt = 0, reviewCount = 2,
           consecutiveCorrect = 1, createdAt = 0\<rparr>,
          \<lparr>card_id = ''c2'', deckId = ''d1'', stage = New, interval = 4,
           easeFactor = 2.5, nextReviewAt = 0, reviewCount = 2,
           consecutiveCorrect = 0, createdAt = 0\<rparr>])" and quality = 4 and responseTime = 1500 and wasCorrect = True,
      THEN conjunct2, THEN conjunct2, THEN conjunct2]
    handleCardReview_submit_failed [OF refl refl refl refl refl refl refl,
      where s = "(fetchStudyData
         [\<lparr>card_id = ''c1'', deckId = ''d1'', stage = Review, interval = 4,
           easeFactor = 2.5, nextReviewAt = 0, reviewCount = 2,
           consecutiveCorrect = 1, createdAt = 0\<rparr>,
          \<lparr>card_id = ''c2'', deckId = ''d1'', stage = New, interval = 4,
           easeFactor = 2.5, nextReviewAt = 0, reviewCount = 2,
           consecutiveCorrect = 0, createdAt = 0\<rparr>])" and quality = 3 and responseTime = 1500 and wasCorrect = True,
      THEN conjunct2, THEN conjunct2, THEN conjunct2]
    handleCardReview_submit_failed [OF refl refl refl refl refl refl refl,
      where s = "(fetchStudyData
         [\<lparr>card_id = ''c1'', deckId = ''d1'', stage = Review, interval = 4,
           easeFactor = 2.5, nextReviewAt = 0, reviewCount = 2,
           consecutiveCorrect = 1, createdAt = 0\<rparr>])" and quality = 3 and responseTime = 1500 and wasCorrect = True,
      THEN conjunct2, THEN conjunct2, THEN conjunct2]
    handleCardReview_submit_failed [OF refl refl refl refl refl refl refl,
      where s = "(fetchStudyData
         [\<lparr>card_id = ''c1'', deckId = ''d1'', stage = Review, interval = 4,
           easeFactor = 2.5, nextReviewAt = 0, reviewCount = 2,
           consecutiveCorrect = 1, createdAt = 0\<rparr>])" and quality = 4 and responseTime = 1500 and wasCorrect = True,
      THEN conjunct2, THEN conjunct2, THEN conjunct2]
  by (simp add: fetchStudyData_def initialQueue_def reviewData_valid_def reviewed_entry_def
      assign_sm2_def Math_floor_def calculateSM2_fields sm2_unclamped_def
      sm2_stage_progression_def)

subsection \<open>Runs of correct reviews end the session\<close>














end
